theory Spec2Isabelle
  imports Main "HOL-Library.Word"
begin

unbundle bit_operations_syntax

section \<open>The NES ROM loader (nintendo\_nes.py)\<close>

text \<open>
  The loader is a Python script run by a disassembler host. Python integers are modelled as
  \<open>int\<close>, the bytes of the input file and the \<open>c_ubyte\<close> header fields as \<open>8 word\<close>
  (read as integers with \<open>uint\<close>, as ctypes does on field access). The input \<open>li\<close> is the
  list of the file's bytes. The host's database is an explicit state that every host call
  transforms; a Python exception is the \<open>Inl\<close> of a result, returned together with the
  database as it was when the exception was raised.
\<close>

type_synonym byte = "8 word"

subsection \<open>Module constants (lines 6--56)\<close>

definition ROM_SIGNATURE_OFFSET :: nat where
  "ROM_SIGNATURE_OFFSET = 0"

definition ROM_SIGNATURE :: "byte list" where
  "ROM_SIGNATURE = [0x4E, 0x45, 0x53, 0x1A]"

definition ROM_FORMAT_NAME :: string where
  "ROM_FORMAT_NAME = ''Nintendo NES ROM''"

definition ROM_SIGNATURE_LENGTH :: nat where
  "ROM_SIGNATURE_LENGTH = 4"

definition HEADER_SIZE :: int where
  "HEADER_SIZE = 16"

record NES_HEADER =
  magic :: "byte list"
  nb_prg_page_16k :: byte
  nb_chr_page_8k :: byte
  rom_control_byte_0 :: byte
  rom_control_byte_1 :: byte
  nb_prg_page_8k :: byte
  reserved :: "byte list"

text \<open>\<open>ctypes.sizeof(NES_HEADER)\<close>: four chars, five unsigned bytes, seven chars.\<close>

definition LEN_NES_HEADER :: int where
  "LEN_NES_HEADER = 4 + 1 + 1 + 1 + 1 + 1 + 7"

definition RAM_START :: int where "RAM_START = 0x0"
definition RAM_SIZE :: int where "RAM_SIZE = 0x2000"
definition IOREG_START :: int where "IOREG_START = 0x2000"
definition IOREG_SIZE :: int where "IOREG_SIZE = 0x2020"
definition EXPROM_START :: int where "EXPROM_START = 0x4020"
definition EXPROM_SIZE :: int where "EXPROM_SIZE = 0x1FE0"
definition SRAM_START :: int where "SRAM_START = 0x6000"
definition SRAM_SIZE :: int where "SRAM_SIZE = 0x2000"
definition TRAINER_START :: int where "TRAINER_START = 0x7000"
definition TRAINER_SIZE :: int where "TRAINER_SIZE = 0x0200"
definition ROM_START :: int where "ROM_START = 0x8000"
definition ROM_SIZE :: int where "ROM_SIZE = 0x8000"

definition PRG_PAGE_SIZE :: int where "PRG_PAGE_SIZE = 0x4000"
definition CHR_PAGE_SIZE :: int where "CHR_PAGE_SIZE = 0x2000"

text \<open>
  The mapper constants are kept as the table of names the module defines, because the
  dispatch of \<open>load_file\<close> looks one of its operands up under a name that is not in it.
\<close>

definition mapper_names :: "(string \<times> int) list" where
  "mapper_names =
    [(''MAPPER_NONE'', 0),
     (''MAPPER_MMC1'', 1),
     (''MAPPER_UxROM'', 2),
     (''MAPPER_CNROM'', 3),
     (''MAPPER_MMC3'', 4),
     (''MAPPER_MMC5'', 5),
     (''MAPPER_AxROM'', 7),
     (''MAPPER_MMC2'', 9),
     (''MAPPER_MMC4'', 10),
     (''MAPPER_COLOR_DREAMS'', 11),
     (''MAPPER_CPROM'', 13),
     (''MAPPER_BxROM'', 34),
     (''MAPPER_GNROM'', 66),
     (''MAPPER_CAMERICA'', 71),
     (''MAPPER_TLSROM'', 118),
     (''MAPPER_TQROM'', 119)]"

datatype py_error = ValueError | NameError string

text \<open>Reading a global name: a name the module does not define raises \<open>NameError\<close>.\<close>

definition global_name :: "string \<Rightarrow> py_error + int" where
  "global_name nm =
     (case map_of mapper_names nm of None \<Rightarrow> Inl (NameError nm) | Some v \<Rightarrow> Inr v)"

text \<open>\<open>mapper_version == NAME\<close>: the name is looked up when the comparison is evaluated.\<close>

definition eq_name :: "int \<Rightarrow> string \<Rightarrow> py_error + bool" where
  "eq_name v nm = (case global_name nm of Inl e \<Rightarrow> Inl e | Inr c \<Rightarrow> Inr (v = c))"

text \<open>
  Python's \<open>a or b\<close>: \<open>b\<close> is evaluated only when \<open>a\<close> is false, so an exception in \<open>b\<close>
  is raised only then.
\<close>

definition por :: "py_error + bool \<Rightarrow> py_error + bool \<Rightarrow> py_error + bool" where
  "por a b = (case a of Inl e \<Rightarrow> Inl e | Inr True \<Rightarrow> Inr True | Inr False \<Rightarrow> b)"

subsection \<open>The host's database\<close>

text \<open>
  The host (its modules \<open>idc\<close> and \<open>idaapi\<close>) is not part of the repository. Its database is
  modelled by what the loader asks of it: \<open>segs\<close> is the list of the segments requested
  with \<open>AddSeg\<close>, in the order of the calls and with the bounds of the call; \<open>mem\<close> holds
  the bytes written by \<open>PatchByte\<close> and \<open>file2base\<close>; \<open>warnings\<close> the messages of the
  loader's calls of \<open>Warning\<close>.
\<close>

record segment =
  seg_name :: string
  startEA :: int
  endEA :: int
  seg_type :: "string list"

datatype warning =
    UnknownFormatName string
  | SecondCaseMapper
  | ThirdCaseMapper
  | MapperNotSupported int

datatype header_line =
    Rule
  | RomHeader
  | Signature "byte list"
  | PrgPages16k "byte list"
  | ChrPages8k "byte list"
  | CartridgeTypeLSB "byte list"
  | CartridgeTypeMSB "byte list"
  | Ram8k "byte list"

record database =
  processor :: "string option"
  segs :: "segment list"
  mem :: "int \<Rightarrow> byte option"
  warnings :: "warning list"
  described :: "(int \<times> header_line) list"
  names :: "(int \<times> string) list"
  data_words :: "int list"
  entries :: "(int \<times> int \<times> string) list"
  startIP :: "int option"
  beginEA :: "int option"

definition Warning :: "warning \<Rightarrow> database \<Rightarrow> database" where
  "Warning w db = db\<lparr>warnings := warnings db @ [w]\<rparr>"

definition set_processor_type :: "string \<Rightarrow> database \<Rightarrow> database" where
  "set_processor_type p db = db\<lparr>processor := Some p\<rparr>"

definition AddSeg :: "int \<Rightarrow> int \<Rightarrow> database \<Rightarrow> database" where
  "AddSeg startea endea db =
     db\<lparr>segs := segs db @ [\<lparr>seg_name = [], startEA = startea, endEA = endea, seg_type = []\<rparr>]\<rparr>"

text \<open>
  \<open>RenameSeg\<close> and \<open>SetSegmentType\<close> address a segment by an address in it. The host gives
  an address to the segment created last over it, so the last segment of the list that
  holds the address is the one changed.
\<close>

fun change_first :: "int \<Rightarrow> (segment \<Rightarrow> segment) \<Rightarrow> segment list \<Rightarrow> segment list" where
  "change_first ea f [] = []"
| "change_first ea f (s # ss) =
     (if startEA s \<le> ea \<and> ea < endEA s then f s # ss else s # change_first ea f ss)"

definition change_last :: "int \<Rightarrow> (segment \<Rightarrow> segment) \<Rightarrow> segment list \<Rightarrow> segment list" where
  "change_last ea f ss = rev (change_first ea f (rev ss))"

definition RenameSeg :: "int \<Rightarrow> string \<Rightarrow> database \<Rightarrow> database" where
  "RenameSeg ea nm db = db\<lparr>segs := change_last ea (\<lambda>s. s\<lparr>seg_name := nm\<rparr>) (segs db)\<rparr>"

definition SetSegmentType :: "int \<Rightarrow> string list \<Rightarrow> database \<Rightarrow> database" where
  "SetSegmentType ea ty db = db\<lparr>segs := change_last ea (\<lambda>s. s\<lparr>seg_type := ty\<rparr>) (segs db)\<rparr>"

definition PatchByte :: "int \<Rightarrow> byte \<Rightarrow> database \<Rightarrow> database" where
  "PatchByte ea v db = db\<lparr>mem := (mem db)(ea \<mapsto> v)\<rparr>"

text \<open>\<open>Word(ea)\<close>: the 16-bit little-endian value at \<open>ea\<close>; all ones where no byte is loaded.\<close>

definition Word :: "int \<Rightarrow> database \<Rightarrow> int" where
  "Word ea db =
     (case (mem db ea, mem db (ea + 1)) of
        (Some lo, Some hi) \<Rightarrow> uint lo + 256 * uint hi
      | _ \<Rightarrow> 0xFFFF)"

definition describe :: "int \<Rightarrow> header_line \<Rightarrow> database \<Rightarrow> database" where
  "describe ea l db = db\<lparr>described := described db @ [(ea, l)]\<rparr>"

definition MakeNameEx :: "int \<Rightarrow> string \<Rightarrow> database \<Rightarrow> database" where
  "MakeNameEx ea nm db = db\<lparr>names := names db @ [(ea, nm)]\<rparr>"

definition MakeWord :: "int \<Rightarrow> database \<Rightarrow> database" where
  "MakeWord ea db = db\<lparr>data_words := data_words db @ [ea]\<rparr>"

definition add_entry :: "int \<Rightarrow> int \<Rightarrow> string \<Rightarrow> database \<Rightarrow> database" where
  "add_entry ord ea nm db = db\<lparr>entries := entries db @ [(ord, ea, nm)]\<rparr>"

text \<open>\<open>li.seek(off); li.read(n)\<close>: at most \<open>n\<close> bytes, fewer at the end of the file.\<close>

definition li_read :: "byte list \<Rightarrow> nat \<Rightarrow> nat \<Rightarrow> byte list" where
  "li_read li off n = take n (drop off li)"

text \<open>
  \<open>li.file2base(pos, ea1, ea2, patchable)\<close> is the host's copy of the file bytes
  \<open>[pos, pos + (ea2 - ea1))\<close> to the addresses \<open>[ea1, ea2)\<close>. It returns a status: 1 when
  the bytes were read, 0 on a read error. A request that does not lie within the file is a
  read error; the model takes such a request to write nothing.
\<close>

definition readable :: "byte list \<Rightarrow> int \<Rightarrow> int \<Rightarrow> bool" where
  "readable li pos n \<longleftrightarrow> 0 \<le> pos \<and> pos + n \<le> int (length li)"

definition file2base :: "byte list \<Rightarrow> int \<Rightarrow> int \<Rightarrow> int \<Rightarrow> int \<Rightarrow> database \<Rightarrow> int \<times> database" where
  "file2base li pos ea1 ea2 patchable db =
     (if readable li pos (ea2 - ea1)
      then (1, db\<lparr>mem := (\<lambda>a. if ea1 \<le> a \<and> a < ea2
                                then Some (li ! nat (pos + (a - ea1))) else mem db a)\<rparr>)
      else (0, db))"

subsection \<open>The loader's functions\<close>

text \<open>\<open>zeromemory\<close> (lines 65--67): one \<open>PatchByte\<close> for each \<open>i\<close> of \<open>xrange(0, size)\<close>.\<close>

definition zeromemory :: "int \<Rightarrow> int \<Rightarrow> database \<Rightarrow> database" where
  "zeromemory ea sz db = fold (\<lambda>i. PatchByte (ea + int i) 0) [0..<nat sz] db"

text \<open>
  \<open>accept_file\<close> (lines 69--79) returns the format name or 0; \<open>None\<close> stands for the 0.
\<close>

definition accept_file :: "byte list \<Rightarrow> int \<Rightarrow> string option" where
  "accept_file li n =
     (if n > 0 then None
      else if li_read li ROM_SIGNATURE_OFFSET ROM_SIGNATURE_LENGTH = ROM_SIGNATURE
      then Some ROM_FORMAT_NAME
      else None)"

text \<open>
  The bank offsets of \<open>load_prg_rom_bank\<close> (lines 82--85) and \<open>load_chr_rom_bank\<close>
  (lines 89--92), and the two functions, which hand the offset to \<open>file2base\<close>.
\<close>

definition prg_rom_bank_offset :: "NES_HEADER \<Rightarrow> int \<Rightarrow> int" where
  "prg_rom_bank_offset nheader banknumber =
     (let offset = LEN_NES_HEADER;
          offset = (if uint (rom_control_byte_0 nheader) AND 0x04 \<noteq> 0x00
                    then offset + TRAINER_SIZE else offset);
          offset = offset + (banknumber - 1) * PRG_PAGE_SIZE
      in offset)"

definition chr_rom_bank_offset :: "NES_HEADER \<Rightarrow> int \<Rightarrow> int" where
  "chr_rom_bank_offset nheader banknumber =
     (let offset = LEN_NES_HEADER;
          offset = (if uint (rom_control_byte_0 nheader) AND 0x04 \<noteq> 0x00
                    then offset + TRAINER_SIZE else offset);
          offset = offset + PRG_PAGE_SIZE * uint (nb_prg_page_16k nheader)
                     + (banknumber - 1) * CHR_PAGE_SIZE
      in offset)"

definition load_prg_rom_bank :: "byte list \<Rightarrow> NES_HEADER \<Rightarrow> int \<Rightarrow> int \<Rightarrow> database \<Rightarrow> database" where
  "load_prg_rom_bank li nheader banknumber va db =
     snd (file2base li (prg_rom_bank_offset nheader banknumber) va (va + PRG_PAGE_SIZE) 0 db)"

definition load_chr_rom_bank :: "byte list \<Rightarrow> NES_HEADER \<Rightarrow> int \<Rightarrow> int \<Rightarrow> database \<Rightarrow> database" where
  "load_chr_rom_bank li nheader banknumber va db =
     snd (file2base li (chr_rom_bank_offset nheader banknumber) va (va + CHR_PAGE_SIZE) 0 db)"

text \<open>
  \<open>NES_HEADER.from_buffer_copy(li.read(LEN_NES_HEADER))\<close> (lines 104--105): ctypes raises
  \<open>ValueError\<close> when the buffer is shorter than the structure.
\<close>

definition from_buffer_copy :: "byte list \<Rightarrow> py_error + NES_HEADER" where
  "from_buffer_copy buf =
     (if int (length buf) < LEN_NES_HEADER then Inl ValueError
      else Inr \<lparr>magic = take 4 buf,
                nb_prg_page_16k = buf ! 4,
                nb_chr_page_8k = buf ! 5,
                rom_control_byte_0 = buf ! 6,
                rom_control_byte_1 = buf ! 7,
                nb_prg_page_8k = buf ! 8,
                reserved = take 7 (drop 9 buf)\<rparr>)"

definition read_header :: "byte list \<Rightarrow> py_error + NES_HEADER" where
  "read_header li = from_buffer_copy (li_read li 0 (nat LEN_NES_HEADER))"

text \<open>The segments of \<open>load_file\<close> (lines 107--140), each created, named and zeroed.\<close>

definition build_segments :: "NES_HEADER \<Rightarrow> database \<Rightarrow> database" where
  "build_segments nheader db =
     (let db = AddSeg RAM_START (RAM_START + RAM_SIZE) db;
          db = RenameSeg RAM_START ''RAM'' db;
          db = zeromemory RAM_START RAM_SIZE db;
          db = AddSeg IOREG_START (IOREG_START + IOREG_SIZE) db;
          db = RenameSeg IOREG_START ''IOREG'' db;
          db = zeromemory IOREG_START IOREG_SIZE db;
          db = (if uint (rom_control_byte_0 nheader) AND 0x02 \<noteq> 0x00
                then zeromemory SRAM_START SRAM_SIZE
                       (RenameSeg SRAM_START ''SRAM''
                         (AddSeg SRAM_START (SRAM_START + SRAM_SIZE) db))
                else db);
          db = AddSeg EXPROM_START (EXPROM_START + EXPROM_SIZE) db;
          db = RenameSeg EXPROM_START ''EXPROM'' db;
          db = zeromemory EXPROM_START EXPROM_SIZE db;
          db = (if uint (rom_control_byte_0 nheader) AND 0x04 \<noteq> 0x00
                then zeromemory TRAINER_START TRAINER_SIZE
                       (RenameSeg TRAINER_START ''TRAINER''
                         (AddSeg TRAINER_START (TRAINER_START + TRAINER_SIZE) db))
                else db);
          db = AddSeg ROM_START (ROM_START + ROM_SIZE) db;
          db = RenameSeg ROM_START ''ROM'' db;
          db = SetSegmentType ROM_START [''SEG_CODE'', ''SEG_DATA''] db;
          db = zeromemory ROM_START ROM_SIZE db
      in db)"

text \<open>\<open>describe_header_info\<close> (lines 184--194): comment lines from the first nine bytes.\<close>

definition describe_header_info :: "byte list \<Rightarrow> database \<Rightarrow> database" where
  "describe_header_info li db =
     (let db = describe 0x00 Rule db;
          db = describe 0x00 RomHeader db;
          db = describe 0x00 (Signature (li_read li 0 4)) db;
          db = describe 0x00 (PrgPages16k (li_read li 4 1)) db;
          db = describe 0x00 (ChrPages8k (li_read li 5 1)) db;
          db = describe 0x00 (CartridgeTypeLSB (li_read li 6 1)) db;
          db = describe 0x00 (CartridgeTypeMSB (li_read li 7 1)) db;
          db = describe 0x00 (Ram8k (li_read li 8 1)) db;
          db = describe 0x00 Rule db
      in db)"

text \<open>\<open>naming\<close> (lines 196--266): a name and a data word at each vector and register.\<close>

definition vector_and_register_names :: "(int \<times> string) list" where
  "vector_and_register_names =
    [(0xFFFA, ''NMI_vector''),
     (0xFFFC, ''RESET_vector''),
     (0xFFFE, ''IRQ_vector''),
     (0x2000, ''PPU_Control_Register_1''),
     (0x2001, ''PPU_Control_Register_2''),
     (0x2002, ''PPU_Status_Register''),
     (0x2003, ''SPR-RAM_Address_Register''),
     (0x2004, ''SPR-RAM_Data_Register''),
     (0x2005, ''PPU_Background_Scrolling_Offset''),
     (0x2006, ''VRAM_Address_Register''),
     (0x2007, ''VRAM_Read/Write_Data_Register''),
     (0x4000, ''APU_Channel_1_(Rectangle)_Volume/Decay''),
     (0x4001, ''APU_Channel_1_(Rectangle)_Sweep''),
     (0x4002, ''APU_Channel_1_(Rectangle)_Frequency''),
     (0x4003, ''APU_Channel_1_(Rectangle)_Length''),
     (0x4004, ''APU_Channel_2_(Rectangle)_Volume/Decay''),
     (0x4005, ''APU_Channel_2_(Rectangle)_Sweep''),
     (0x4006, ''APU_Channel_2_(Rectangle)_Frequency''),
     (0x4007, ''APU_Channel_2_(Rectangle)_Length''),
     (0x4008, ''APU_Channel_3_(Triangle)_Linear_Counter''),
     (0x4009, ''APU_Channel_3_(Triangle)_N/A''),
     (0x400A, ''APU_Channel_3_(Triangle)_Frequency''),
     (0x400B, ''APU_Channel_3_(Triangle)_Length''),
     (0x400C, ''APU_Channel_4_(Noise)_Volume/Decay''),
     (0x400D, ''APU_Channel_4_(Noise)_N/A''),
     (0x400E, ''APU_Channel_4_(Noise)_Frequency''),
     (0x400F, ''APU_Channel_4_(Noise)_Length''),
     (0x4010, ''APU_Channel_5_(DMC)_Play_mode_and_DMA_frequency''),
     (0x4011, ''APU_Channel_5_(DMC)_Delta_counter_load_register''),
     (0x4012, ''APU_Channel_5_(DMC)_Address_load_register''),
     (0x4013, ''APU_Channel_5_(DMC)_Length_register''),
     (0x4014, ''SPR-RAM_DMA_Register''),
     (0x4015, ''DMC/IRQ/length_counter_status/channel_enable_register''),
     (0x4016, ''Joypad_#1_(RW)''),
     (0x4017, ''Joypad_#2/APU_SOFTCLK_(RW)'')]"

definition naming :: "database \<Rightarrow> database" where
  "naming db =
     fold (\<lambda>(ea, nm) d. MakeWord ea (MakeNameEx ea nm d)) vector_and_register_names db"

text \<open>
  The mapper number (line 144) and the dispatch on it (lines 145--175). The condition of
  the first branch is a chain of \<open>or\<close> over eight comparisons; its seventh operand is
  written \<open>MAPPER_CAMERIC\<close>.
\<close>

definition mapper_version :: "NES_HEADER \<Rightarrow> int" where
  "mapper_version nheader =
     (drop_bit 4 (uint (rom_control_byte_0 nheader) AND 0xF0))
       OR (uint (rom_control_byte_1 nheader) AND 0xF0)"

datatype mapper_case = FirstCase | SecondCase | ThirdCase | OtherCase

definition first_case_condition :: "int \<Rightarrow> py_error + bool" where
  "first_case_condition v =
     por (eq_name v ''MAPPER_NONE'')
    (por (eq_name v ''MAPPER_MMC1'')
    (por (eq_name v ''MAPPER_UxROM'')
    (por (eq_name v ''MAPPER_CNROM'')
    (por (eq_name v ''MAPPER_MMC3'')
    (por (eq_name v ''MAPPER_MMC5'')
    (por (eq_name v ''MAPPER_CAMERIC'')
         (eq_name v ''MAPPER_GNROM'')))))))"

definition third_case_condition :: "int \<Rightarrow> py_error + bool" where
  "third_case_condition v =
     por (eq_name v ''MAPPER_AxROM'')
    (por (eq_name v ''MAPPER_COLOR_DREAMS'')
         (eq_name v ''MAPPER_BxROM''))"

definition mapper_dispatch :: "int \<Rightarrow> py_error + mapper_case" where
  "mapper_dispatch v =
     (case first_case_condition v of
        Inl e \<Rightarrow> Inl e
      | Inr True \<Rightarrow> Inr FirstCase
      | Inr False \<Rightarrow>
         (case eq_name v ''MAPPER_MMC2'' of
            Inl e \<Rightarrow> Inl e
          | Inr True \<Rightarrow> Inr SecondCase
          | Inr False \<Rightarrow>
             (case third_case_condition v of
                Inl e \<Rightarrow> Inl e
              | Inr True \<Rightarrow> Inr ThirdCase
              | Inr False \<Rightarrow> Inr OtherCase)))"

text \<open>The three offsets the first branch computes in line (lines 153--166).\<close>

definition first_offset :: "NES_HEADER \<Rightarrow> int" where
  "first_offset nheader =
     (let offset = LEN_NES_HEADER;
          offset = (if uint (rom_control_byte_0 nheader) AND 0x04 \<noteq> 0x00
                    then offset + TRAINER_SIZE else offset);
          offset = offset
      in offset)"

definition second_offset :: "NES_HEADER \<Rightarrow> int" where
  "second_offset nheader =
     (let offset = LEN_NES_HEADER;
          offset = (if uint (rom_control_byte_0 nheader) AND 0x04 \<noteq> 0x00
                    then offset + TRAINER_SIZE else offset);
          offset = offset + (uint (nb_prg_page_16k nheader) - 1) * PRG_PAGE_SIZE
      in offset)"

definition third_offset :: "NES_HEADER \<Rightarrow> int" where
  "third_offset nheader =
     (let offset = LEN_NES_HEADER;
          offset = (if uint (rom_control_byte_0 nheader) AND 0x04 \<noteq> 0x00
                    then offset + TRAINER_SIZE else offset);
          offset = offset + PRG_PAGE_SIZE * uint (nb_prg_page_16k nheader)
      in offset)"

text \<open>The first branch: three copies, the status of each discarded.\<close>

definition first_case_copies :: "byte list \<Rightarrow> NES_HEADER \<Rightarrow> database \<Rightarrow> database" where
  "first_case_copies li nheader db =
     (let db = snd (file2base li (first_offset nheader)
                      ROM_START (ROM_START + PRG_PAGE_SIZE) 0 db);
          db = snd (file2base li (second_offset nheader)
                      (ROM_START + PRG_PAGE_SIZE) (ROM_START + PRG_PAGE_SIZE + PRG_PAGE_SIZE) 0 db);
          db = snd (file2base li (third_offset nheader)
                      RAM_START (RAM_START + CHR_PAGE_SIZE) 0 db)
      in db)"

definition load_banks :: "byte list \<Rightarrow> NES_HEADER \<Rightarrow> database \<Rightarrow> database \<times> (py_error + unit)" where
  "load_banks li nheader db =
     (let mapper_version = mapper_version nheader
      in case mapper_dispatch mapper_version of
           Inl e \<Rightarrow> (db, Inl e)
         | Inr FirstCase \<Rightarrow> (first_case_copies li nheader db, Inr ())
         | Inr SecondCase \<Rightarrow> (Warning SecondCaseMapper db, Inr ())
         | Inr ThirdCase \<Rightarrow> (Warning ThirdCaseMapper db, Inr ())
         | Inr OtherCase \<Rightarrow> (Warning (MapperNotSupported mapper_version) db, Inr ()))"

text \<open>
  \<open>load_file\<close> (lines 95--182). It returns 0 for another format name and 1 at its end; an
  exception leaves the database as the calls before it made it.
\<close>

definition load_file :: "byte list \<Rightarrow> int \<Rightarrow> string \<Rightarrow> database \<Rightarrow> database \<times> (py_error + int)" where
  "load_file li neflags format db =
     (if format \<noteq> ROM_FORMAT_NAME then (Warning (UnknownFormatName format) db, Inr 0)
      else
        let db = set_processor_type ''M6502'' db;
            sz = int (length li)
        in case read_header li of
             Inl e \<Rightarrow> (db, Inl e)
           | Inr nheader \<Rightarrow>
              (let db = build_segments nheader db;
                   db = describe_header_info li db
               in case load_banks li nheader db of
                    (db, Inl e) \<Rightarrow> (db, Inl e)
                  | (db, Inr _) \<Rightarrow>
                     (let db = naming db;
                          db = add_entry (Word 0xFFFC db) (Word 0xFFFC db) ''start'' db;
                          db = db\<lparr>startIP := Some (Word 0xFFFC db)\<rparr>;
                          db = db\<lparr>beginEA := Some (Word 0xFFFC db)\<rparr>
                      in (db, Inr 1))))"

subsection \<open>Properties of the segment list\<close>

text \<open>Two segments overlap when their half-open address ranges meet.\<close>

definition overlap :: "segment \<Rightarrow> segment \<Rightarrow> bool" where
  "overlap s t \<longleftrightarrow> startEA s < endEA t \<and> startEA t < endEA s"

fun no_overlap :: "segment list \<Rightarrow> bool" where
  "no_overlap [] = True"
| "no_overlap (s # ss) = (list_all (\<lambda>t. \<not> overlap s t) ss \<and> no_overlap ss)"

definition has_segment :: "string \<Rightarrow> int \<Rightarrow> int \<Rightarrow> database \<Rightarrow> bool" where
  "has_segment nm s e db =
     list_ex (\<lambda>g. seg_name g = nm \<and> startEA g = s \<and> endEA g = e) (segs db)"

definition has_segment_named :: "string \<Rightarrow> database \<Rightarrow> bool" where
  "has_segment_named nm db = list_ex (\<lambda>g. seg_name g = nm) (segs db)"

text \<open>All the bytes of \<open>[ea1, ea2)\<close> are loaded and zero.\<close>

definition zero_filled :: "int \<Rightarrow> int \<Rightarrow> database \<Rightarrow> bool" where
  "zero_filled ea1 ea2 db = list_all (\<lambda>a. mem db a = Some 0) [ea1..ea2 - 1]"

subsection \<open>Example inputs\<close>

text \<open>A database before any load.\<close>

definition empty_database :: database where
  "empty_database =
     \<lparr>processor = None, segs = [], mem = (\<lambda>a. None), warnings = [], described = [],
      names = [], data_words = [], entries = [], startIP = None, beginEA = None\<rparr>"

text \<open>
  A sixteen-byte header with the signature, the given page counts and control bytes, and
  images made of it: an optional trainer of 512 bytes \<open>0xAA\<close>, program banks of bytes
  \<open>0x11\<close> (the first) and \<open>0x33\<close> (the others), a character bank of bytes \<open>0x22\<close>.
\<close>

definition header_bytes :: "byte \<Rightarrow> byte \<Rightarrow> byte \<Rightarrow> byte \<Rightarrow> byte list" where
  "header_bytes prg chr c0 c1 =
     [0x4E, 0x45, 0x53, 0x1A, prg, chr, c0, c1, 0, 0, 0, 0, 0, 0, 0, 0]"

definition one_bank_image :: "byte \<Rightarrow> byte \<Rightarrow> byte list" where
  "one_bank_image c0 c1 =
     header_bytes 1 1 c0 c1
     @ (if uint c0 AND 0x04 \<noteq> 0 then replicate 512 0xAA else [])
     @ replicate 16384 0x11 @ replicate 8192 0x22"

definition two_bank_image :: "byte list" where
  "two_bank_image =
     header_bytes 2 1 0 0 @ replicate 16384 0x11 @ replicate 16384 0x33 @ replicate 8192 0x22"

definition truncated_image :: "byte list" where
  "truncated_image = header_bytes 2 1 0 0 @ replicate 8192 0x11"

section \<open>Properties of the model\<close>

subsection \<open>What each step does to the database\<close>

lemmas region_consts =
  RAM_START_def RAM_SIZE_def IOREG_START_def IOREG_SIZE_def EXPROM_START_def EXPROM_SIZE_def
  SRAM_START_def SRAM_SIZE_def TRAINER_START_def TRAINER_SIZE_def ROM_START_def ROM_SIZE_def
  PRG_PAGE_SIZE_def CHR_PAGE_SIZE_def LEN_NES_HEADER_def

lemma global_name_simps:
  "global_name ''MAPPER_NONE'' = Inr 0"
  "global_name ''MAPPER_MMC1'' = Inr 1"
  "global_name ''MAPPER_UxROM'' = Inr 2"
  "global_name ''MAPPER_CNROM'' = Inr 3"
  "global_name ''MAPPER_MMC3'' = Inr 4"
  "global_name ''MAPPER_MMC5'' = Inr 5"
  "global_name ''MAPPER_AxROM'' = Inr 7"
  "global_name ''MAPPER_MMC2'' = Inr 9"
  "global_name ''MAPPER_COLOR_DREAMS'' = Inr 11"
  "global_name ''MAPPER_BxROM'' = Inr 34"
  "global_name ''MAPPER_GNROM'' = Inr 66"
  "global_name ''MAPPER_CAMERICA'' = Inr 71"
  "global_name ''MAPPER_CAMERIC'' = Inl (NameError ''MAPPER_CAMERIC'')"
  by (simp_all add: global_name_def mapper_names_def)

lemma first_case_condition_eq:
  "first_case_condition v =
     (if v = 0 \<or> v = 1 \<or> v = 2 \<or> v = 3 \<or> v = 4 \<or> v = 5 then Inr True
      else Inl (NameError ''MAPPER_CAMERIC''))"
  by (simp add: first_case_condition_def por_def eq_name_def global_name_simps)

lemma mapper_dispatch_eq:
  "mapper_dispatch v =
     (if v = 0 \<or> v = 1 \<or> v = 2 \<or> v = 3 \<or> v = 4 \<or> v = 5 then Inr FirstCase
      else Inl (NameError ''MAPPER_CAMERIC''))"
  by (simp add: mapper_dispatch_def first_case_condition_eq)

lemma zeromemory_fold:
  "fold (\<lambda>i. PatchByte (ea + int i) 0) [0..<k] db =
     db\<lparr>mem := (\<lambda>a. if ea \<le> a \<and> a < ea + int k then Some 0 else mem db a)\<rparr>"
proof (induction k)
  case 0
  have "(\<lambda>a. if ea \<le> a \<and> a < ea + int 0 then Some 0 else mem db a) = mem db"
    by (rule ext) auto
  then show ?case by simp
next
  case (Suc k)
  have "(\<lambda>a. if ea \<le> a \<and> a < ea + int k then Some 0 else mem db a)(ea + int k \<mapsto> 0) =
        (\<lambda>a. if ea \<le> a \<and> a < ea + int (Suc k) then Some 0 else mem db a)"
    by (rule ext) auto
  with Suc show ?case by (simp add: PatchByte_def)
qed

lemma zeromemory_eq:
  "0 \<le> sz \<Longrightarrow> zeromemory ea sz db =
     db\<lparr>mem := (\<lambda>a. if ea \<le> a \<and> a < ea + sz then Some 0 else mem db a)\<rparr>"
  by (simp add: zeromemory_def zeromemory_fold)

lemma change_last_snoc:
  "startEA s \<le> ea \<Longrightarrow> ea < endEA s \<Longrightarrow> change_last ea f (ss @ [s]) = ss @ [f s]"
  by (simp add: change_last_def)

lemma segs_zeromemory [simp]: "segs (zeromemory ea sz db) = segs db"
  by (simp add: zeromemory_def zeromemory_fold)

lemma warnings_zeromemory [simp]: "warnings (zeromemory ea sz db) = warnings db"
  by (simp add: zeromemory_def zeromemory_fold)

lemma mem_zeromemory:
  "mem (zeromemory ea sz db) a = (if ea \<le> a \<and> a < ea + sz then Some 0 else mem db a)"
  by (cases "0 \<le> sz") (auto simp: zeromemory_def zeromemory_fold)

lemma mem_AddSeg [simp]: "mem (AddSeg s e db) = mem db"
  by (simp add: AddSeg_def)

lemma warnings_AddSeg [simp]: "warnings (AddSeg s e db) = warnings db"
  by (simp add: AddSeg_def)

lemma mem_RenameSeg [simp]: "mem (RenameSeg ea nm db) = mem db"
  by (simp add: RenameSeg_def)

lemma warnings_RenameSeg [simp]: "warnings (RenameSeg ea nm db) = warnings db"
  by (simp add: RenameSeg_def)

lemma mem_SetSegmentType [simp]: "mem (SetSegmentType ea ty db) = mem db"
  by (simp add: SetSegmentType_def)

lemma warnings_SetSegmentType [simp]: "warnings (SetSegmentType ea ty db) = warnings db"
  by (simp add: SetSegmentType_def)

lemma segs_add_rename:
  "s < e \<Longrightarrow> segs (RenameSeg s nm (AddSeg s e db)) =
     segs db @ [\<lparr>seg_name = nm, startEA = s, endEA = e, seg_type = []\<rparr>]"
  by (simp add: AddSeg_def RenameSeg_def change_last_snoc)

lemma segs_add_rename_type:
  "s < e \<Longrightarrow> segs (SetSegmentType s ty (RenameSeg s nm (AddSeg s e db))) =
     segs db @ [\<lparr>seg_name = nm, startEA = s, endEA = e, seg_type = ty\<rparr>]"
  by (simp add: AddSeg_def RenameSeg_def SetSegmentType_def change_last_snoc)

lemma segs_build_segments:
  "segs (build_segments nheader db) =
     segs db
     @ [\<lparr>seg_name = ''RAM'', startEA = 0x0, endEA = 0x2000, seg_type = []\<rparr>,
        \<lparr>seg_name = ''IOREG'', startEA = 0x2000, endEA = 0x4020, seg_type = []\<rparr>]
     @ (if uint (rom_control_byte_0 nheader) AND 0x02 \<noteq> 0
        then [\<lparr>seg_name = ''SRAM'', startEA = 0x6000, endEA = 0x8000, seg_type = []\<rparr>] else [])
     @ [\<lparr>seg_name = ''EXPROM'', startEA = 0x4020, endEA = 0x6000, seg_type = []\<rparr>]
     @ (if uint (rom_control_byte_0 nheader) AND 0x04 \<noteq> 0
        then [\<lparr>seg_name = ''TRAINER'', startEA = 0x7000, endEA = 0x7200, seg_type = []\<rparr>] else [])
     @ [\<lparr>seg_name = ''ROM'', startEA = 0x8000, endEA = 0x10000,
          seg_type = [''SEG_CODE'', ''SEG_DATA'']\<rparr>]"
  by (simp add: build_segments_def Let_def segs_add_rename segs_add_rename_type region_consts)

lemma warnings_build_segments [simp]: "warnings (build_segments nheader db) = warnings db"
  by (simp add: build_segments_def Let_def)

lemma mem_build_segments:
  "mem (build_segments nheader db) a =
     (if (0 \<le> a \<and> a < 0x6000)
         \<or> (uint (rom_control_byte_0 nheader) AND 0x02 \<noteq> 0 \<and> 0x6000 \<le> a \<and> a < 0x8000)
         \<or> (uint (rom_control_byte_0 nheader) AND 0x04 \<noteq> 0 \<and> 0x7000 \<le> a \<and> a < 0x7200)
         \<or> (0x8000 \<le> a \<and> a < 0x10000)
      then Some 0 else mem db a)"
  by (simp add: build_segments_def Let_def mem_zeromemory region_consts)


lemma segs_file2base [simp]: "segs (snd (file2base li pos ea1 ea2 p db)) = segs db"
  by (simp add: file2base_def)

lemma warnings_file2base [simp]:
  "warnings (snd (file2base li pos ea1 ea2 p db)) = warnings db"
  by (simp add: file2base_def)

lemma mem_file2base:
  "mem (snd (file2base li pos ea1 ea2 p db)) a =
     (if readable li pos (ea2 - ea1) \<and> ea1 \<le> a \<and> a < ea2
      then Some (li ! nat (pos + (a - ea1))) else mem db a)"
  by (simp add: file2base_def)

lemma segs_first_case_copies [simp]: "segs (first_case_copies li nheader db) = segs db"
  by (simp add: first_case_copies_def Let_def)

lemma warnings_first_case_copies [simp]:
  "warnings (first_case_copies li nheader db) = warnings db"
  by (simp add: first_case_copies_def Let_def)

lemma mem_first_case_copies:
  "mem (first_case_copies li nheader db) a =
     (if readable li (third_offset nheader) 0x2000 \<and> 0 \<le> a \<and> a < 0x2000
      then Some (li ! nat (third_offset nheader + a))
      else if readable li (second_offset nheader) 0x4000 \<and> 0xC000 \<le> a \<and> a < 0x10000
      then Some (li ! nat (second_offset nheader + (a - 0xC000)))
      else if readable li (first_offset nheader) 0x4000 \<and> 0x8000 \<le> a \<and> a < 0xC000
      then Some (li ! nat (first_offset nheader + (a - 0x8000)))
      else mem db a)"
  by (simp add: first_case_copies_def Let_def mem_file2base region_consts)

lemma segs_describe_header_info [simp]: "segs (describe_header_info li db) = segs db"
  by (simp add: describe_header_info_def describe_def Let_def)

lemma mem_describe_header_info [simp]: "mem (describe_header_info li db) = mem db"
  by (simp add: describe_header_info_def describe_def Let_def)

lemma warnings_describe_header_info [simp]:
  "warnings (describe_header_info li db) = warnings db"
  by (simp add: describe_header_info_def describe_def Let_def)

lemma naming_fold:
  "segs (fold (\<lambda>(ea, nm) d. MakeWord ea (MakeNameEx ea nm d)) xs db) = segs db
   \<and> mem (fold (\<lambda>(ea, nm) d. MakeWord ea (MakeNameEx ea nm d)) xs db) = mem db
   \<and> warnings (fold (\<lambda>(ea, nm) d. MakeWord ea (MakeNameEx ea nm d)) xs db) = warnings db"
  by (induction xs arbitrary: db) (auto simp: MakeWord_def MakeNameEx_def)

lemma segs_naming [simp]: "segs (naming db) = segs db"
  by (simp add: naming_def naming_fold)

lemma mem_naming [simp]: "mem (naming db) = mem db"
  by (simp add: naming_def naming_fold)

lemma warnings_naming [simp]: "warnings (naming db) = warnings db"
  by (simp add: naming_def naming_fold)

lemma load_banks_eq:
  "load_banks li nheader db =
     (if mapper_version nheader \<in> {0, 1, 2, 3, 4, 5}
      then (first_case_copies li nheader db, Inr ())
      else (db, Inl (NameError ''MAPPER_CAMERIC'')))"
  by (simp add: load_banks_def mapper_dispatch_eq Let_def)

lemma read_header_eq:
  "read_header li =
     (if length li < 16 then Inl ValueError
      else Inr \<lparr>magic = take 4 li,
                nb_prg_page_16k = li ! 4,
                nb_chr_page_8k = li ! 5,
                rom_control_byte_0 = li ! 6,
                rom_control_byte_1 = li ! 7,
                nb_prg_page_8k = li ! 8,
                reserved = take 7 (drop 9 li)\<rparr>)"
  by (auto simp: read_header_def from_buffer_copy_def li_read_def LEN_NES_HEADER_def
        min_def take_drop)

lemma load_file_result:
  "read_header li = Inr nheader \<Longrightarrow>
   snd (load_file li neflags ROM_FORMAT_NAME db) =
     (if mapper_version nheader \<in> {0, 1, 2, 3, 4, 5} then Inr 1
      else Inl (NameError ''MAPPER_CAMERIC''))"
  by (simp add: load_file_def load_banks_eq Let_def)

lemma load_file_segs:
  "read_header li = Inr nheader \<Longrightarrow>
   segs (fst (load_file li neflags ROM_FORMAT_NAME db)) = segs (build_segments nheader db)"
  by (simp add: load_file_def load_banks_eq Let_def add_entry_def segs_build_segments
        set_processor_type_def)

lemma load_file_warnings:
  "read_header li = Inr nheader \<Longrightarrow>
   warnings (fst (load_file li neflags ROM_FORMAT_NAME db)) = warnings db"
  by (simp add: load_file_def load_banks_eq Let_def add_entry_def set_processor_type_def)

lemma load_file_mem:
  "read_header li = Inr nheader \<Longrightarrow>
   mem (fst (load_file li neflags ROM_FORMAT_NAME db)) a =
     (if mapper_version nheader \<in> {0, 1, 2, 3, 4, 5}
      then mem (first_case_copies li nheader (build_segments nheader db)) a
      else mem (build_segments nheader db) a)"
  by (simp add: load_file_def load_banks_eq Let_def add_entry_def mem_first_case_copies
        mem_build_segments set_processor_type_def)

subsection \<open>Zero-filled ranges and the example inputs\<close>

lemma zero_filled_iff:
  "zero_filled ea1 ea2 db \<longleftrightarrow> (\<forall>a. ea1 \<le> a \<and> a < ea2 \<longrightarrow> mem db a = Some 0)"
  by (auto simp: zero_filled_def list_all_iff)

lemma read_header_one_bank_image:
  "read_header (one_bank_image c0 c1) =
     Inr \<lparr>magic = ROM_SIGNATURE, nb_prg_page_16k = 1, nb_chr_page_8k = 1,
          rom_control_byte_0 = c0, rom_control_byte_1 = c1, nb_prg_page_8k = 0,
          reserved = [0, 0, 0, 0, 0, 0, 0]\<rparr>"
  by (simp add: read_header_eq one_bank_image_def header_bytes_def ROM_SIGNATURE_def)

lemma read_header_truncated_image:
  "read_header truncated_image =
     Inr \<lparr>magic = ROM_SIGNATURE, nb_prg_page_16k = 2, nb_chr_page_8k = 1,
          rom_control_byte_0 = 0, rom_control_byte_1 = 0, nb_prg_page_8k = 0,
          reserved = [0, 0, 0, 0, 0, 0, 0]\<rparr>"
  by (simp add: read_header_eq truncated_image_def header_bytes_def ROM_SIGNATURE_def)

lemma length_one_bank_image:
  "int (length (one_bank_image c0 c1)) =
     (if uint c0 AND 0x04 \<noteq> 0 then 25104 else 24592)"
  by (simp add: one_bank_image_def header_bytes_def)

lemma length_truncated_image: "int (length truncated_image) = 8208"
  by (simp add: truncated_image_def header_bytes_def)

lemma nth_6_one_bank_image: "one_bank_image c0 c1 ! 6 = c0"
  by (simp add: one_bank_image_def header_bytes_def)

lemma nth_16_one_bank_image:
  "one_bank_image c0 c1 ! 16 = (if uint c0 AND 0x04 \<noteq> 0 then 0xAA else 0x11)"
  by (simp add: one_bank_image_def header_bytes_def nth_append)

subsection \<open>The first branch on the mapper numbers that reach it\<close>

text \<open>
  For the mapper numbers 0 to 5, and a file that holds the three banks, the load leaves
  the first program bank at \<open>0x8000\<close>, the last one at \<open>0xC000\<close> and the first character
  bank at \<open>0x0000\<close>; with one program page the two halves of the ROM segment are equal.
\<close>

lemma first_case_loads_banks:
  assumes "read_header li = Inr nheader"
    and "mapper_version nheader \<in> {0, 1, 2, 3, 4, 5}"
    and "readable li (first_offset nheader) PRG_PAGE_SIZE"
    and "readable li (second_offset nheader) PRG_PAGE_SIZE"
    and "readable li (third_offset nheader) CHR_PAGE_SIZE"
  shows "mem (fst (load_file li neflags ROM_FORMAT_NAME db)) a =
     (if 0x8000 \<le> a \<and> a < 0xC000
      then Some (li ! nat (prg_rom_bank_offset nheader 1 + (a - 0x8000)))
      else if 0xC000 \<le> a \<and> a < 0x10000
      then Some (li ! nat (prg_rom_bank_offset nheader (uint (nb_prg_page_16k nheader))
                            + (a - 0xC000)))
      else if 0 \<le> a \<and> a < 0x2000
      then Some (li ! nat (chr_rom_bank_offset nheader 1 + a))
      else mem (build_segments nheader db) a)"
proof -
  have offs: "first_offset nheader = prg_rom_bank_offset nheader 1"
    "second_offset nheader = prg_rom_bank_offset nheader (uint (nb_prg_page_16k nheader))"
    "third_offset nheader = chr_rom_bank_offset nheader 1"
    by (simp_all add: first_offset_def second_offset_def third_offset_def
          prg_rom_bank_offset_def chr_rom_bank_offset_def Let_def)
  show ?thesis
    using assms
    by (simp add: load_file_mem mem_first_case_copies offs [symmetric] region_consts)
qed

lemma single_bank_mirrored:
  assumes "read_header li = Inr nheader"
    and "mapper_version nheader \<in> {0, 1, 2, 3, 4, 5}"
    and "nb_prg_page_16k nheader = 1"
    and "0 \<le> i" and "i < 0x4000"
  shows "mem (fst (load_file li neflags ROM_FORMAT_NAME db)) (0x8000 + i) =
         mem (fst (load_file li neflags ROM_FORMAT_NAME db)) (0xC000 + i)"
proof -
  have "second_offset nheader = first_offset nheader"
    using assms(3) by (simp add: first_offset_def second_offset_def Let_def)
  then show ?thesis
    using assms
    by (simp add: load_file_mem mem_first_case_copies mem_build_segments region_consts)
qed

text \<open>
  For every other mapper number the load ends in the \<open>NameError\<close>, after the segments
  were created and before \<open>naming\<close>.
\<close>

lemma unsupported_mappers_raise:
  assumes "read_header li = Inr nheader"
    and "mapper_version nheader \<notin> {0, 1, 2, 3, 4, 5}"
  shows "load_file li neflags ROM_FORMAT_NAME db =
           (describe_header_info li (build_segments nheader (set_processor_type ''M6502'' db)),
            Inl (NameError ''MAPPER_CAMERIC''))"
  using assms by (simp add: load_file_def load_banks_eq Let_def)

section \<open>The claims\<close>

text \<open>
  C1. The dispatch is not total. For the mapper numbers 0 to 5 an earlier operand of the
  \<open>or\<close> chain is true and the first branch is taken; for every other number the chain
  reaches the operand \<open>MAPPER_CAMERIC\<close>, a name the module does not define (it defines
  \<open>MAPPER_CAMERICA\<close>), and \<open>NameError\<close> is raised. So 9, 7 and 255 reach none of the
  second, third and last branches. A header with control bytes \<open>0x90\<close> and \<open>0x00\<close> has
  mapper number 9.
\<close>

theorem mapper_dispatch_raises:
  "mapper_dispatch 0 = Inr FirstCase
   \<and> mapper_dispatch 9 = Inl (NameError ''MAPPER_CAMERIC'')
   \<and> mapper_dispatch 7 = Inl (NameError ''MAPPER_CAMERIC'')
   \<and> mapper_dispatch 255 = Inl (NameError ''MAPPER_CAMERIC'')
   \<and> mapper_version \<lparr>magic = ROM_SIGNATURE, nb_prg_page_16k = 1, nb_chr_page_8k = 1,
       rom_control_byte_0 = 0x90, rom_control_byte_1 = 0x00, nb_prg_page_8k = 0,
       reserved = replicate 7 0\<rparr> = 9"
  by (simp add: mapper_dispatch_eq mapper_version_def)

text \<open>
  C2. A load of an image with an unsupported mapper number does not complete. For the
  image with control bytes \<open>0xF0\<close> and \<open>0xF0\<close> (mapper number 255) \<open>load_file\<close> raises
  \<open>NameError\<close> for the undefined \<open>MAPPER_CAMERIC\<close> and has emitted no warning; the images
  with mapper numbers 9 and 7 end the same way.
\<close>

theorem unsupported_mapper_aborts:
  "mapper_version \<lparr>magic = ROM_SIGNATURE, nb_prg_page_16k = 1, nb_chr_page_8k = 1,
       rom_control_byte_0 = 0xF0, rom_control_byte_1 = 0xF0, nb_prg_page_8k = 0,
       reserved = [0, 0, 0, 0, 0, 0, 0]\<rparr> = 255
   \<and> read_header (one_bank_image 0xF0 0xF0) =
       Inr \<lparr>magic = ROM_SIGNATURE, nb_prg_page_16k = 1, nb_chr_page_8k = 1,
            rom_control_byte_0 = 0xF0, rom_control_byte_1 = 0xF0, nb_prg_page_8k = 0,
            reserved = [0, 0, 0, 0, 0, 0, 0]\<rparr>
   \<and> snd (load_file (one_bank_image 0xF0 0xF0) 0 ROM_FORMAT_NAME empty_database)
       = Inl (NameError ''MAPPER_CAMERIC'')
   \<and> warnings (fst (load_file (one_bank_image 0xF0 0xF0) 0 ROM_FORMAT_NAME empty_database))
       = []
   \<and> snd (load_file (one_bank_image 0x90 0x00) 0 ROM_FORMAT_NAME empty_database)
       = Inl (NameError ''MAPPER_CAMERIC'')
   \<and> snd (load_file (one_bank_image 0x70 0x00) 0 ROM_FORMAT_NAME empty_database)
       = Inl (NameError ''MAPPER_CAMERIC'')"
  by (simp add: load_file_result [OF read_header_one_bank_image]
        load_file_warnings [OF read_header_one_bank_image] mapper_version_def
        read_header_one_bank_image empty_database_def)

text \<open>
  C3, as stated, fails: with bits 1 and 2 of control byte 0 both set, the segments SRAM
  \<open>[0x6000, 0x8000)\<close> and TRAINER \<open>[0x7000, 0x7200)\<close> are both requested, and they
  overlap.
\<close>

theorem sram_trainer_overlap:
  "\<not> no_overlap (segs (fst (load_file (one_bank_image 0x06 0) 0 ROM_FORMAT_NAME empty_database)))"
  by (simp add: load_file_segs [OF read_header_one_bank_image] segs_build_segments
        empty_database_def overlap_def)

text \<open>
  C3, amended. The segments a load creates in an empty database are pairwise disjoint
  exactly when SRAM and TRAINER are not both present. When both are, they are the only
  pair that overlaps: without the TRAINER segment, and likewise without the SRAM segment,
  the remaining segments are pairwise disjoint.
\<close>

theorem overlap_only_sram_trainer:
  assumes "read_header li = Inr nheader" and "segs db = []"
  shows "(no_overlap (segs (fst (load_file li neflags ROM_FORMAT_NAME db)))
            \<longleftrightarrow> (uint (rom_control_byte_0 nheader) AND 0x02 = 0
                 \<or> uint (rom_control_byte_0 nheader) AND 0x04 = 0))
       \<and> no_overlap (filter (\<lambda>s. seg_name s \<noteq> ''TRAINER'')
            (segs (fst (load_file li neflags ROM_FORMAT_NAME db))))
       \<and> no_overlap (filter (\<lambda>s. seg_name s \<noteq> ''SRAM'')
            (segs (fst (load_file li neflags ROM_FORMAT_NAME db))))"
  using assms
  by (simp add: load_file_segs segs_build_segments overlap_def)

theorem overlap_only_sram_trainer_witness:
  "no_overlap (segs (fst (load_file (one_bank_image 0x02 0) 0 ROM_FORMAT_NAME empty_database)))
   \<and> no_overlap (segs (fst (load_file (one_bank_image 0x04 0) 0 ROM_FORMAT_NAME empty_database)))
   \<and> no_overlap (filter (\<lambda>s. seg_name s \<noteq> ''TRAINER'')
        (segs (fst (load_file (one_bank_image 0x06 0) 0 ROM_FORMAT_NAME empty_database))))"
  using overlap_only_sram_trainer [OF read_header_one_bank_image, of empty_database "0x02" 0 0]
    overlap_only_sram_trainer [OF read_header_one_bank_image, of empty_database "0x04" 0 0]
    overlap_only_sram_trainer [OF read_header_one_bank_image, of empty_database "0x06" 0 0]
  by (simp add: empty_database_def)

text \<open>
  C4, as stated, fails: the image below has bit 2 of control byte 0 set and a trainer of
  bytes \<open>0xAA\<close> at file offset 16; its load returns 1, and the byte at \<open>0x7000\<close> is 0.
\<close>

theorem trainer_not_copied:
  "uint (one_bank_image 0x04 0 ! 6) AND 0x04 \<noteq> 0
   \<and> snd (load_file (one_bank_image 0x04 0) 0 ROM_FORMAT_NAME empty_database) = Inr 1
   \<and> one_bank_image 0x04 0 ! 16 = 0xAA
   \<and> mem (fst (load_file (one_bank_image 0x04 0) 0 ROM_FORMAT_NAME empty_database)) 0x7000
       = Some 0
   \<and> mem (fst (load_file (one_bank_image 0x04 0) 0 ROM_FORMAT_NAME empty_database)) 0x7000
       \<noteq> Some (one_bank_image 0x04 0 ! 16)"
  by (simp add: load_file_result [OF read_header_one_bank_image]
        load_file_mem [OF read_header_one_bank_image] mapper_version_def
        mem_first_case_copies mem_build_segments nth_16_one_bank_image
        nth_6_one_bank_image)

text \<open>
  C4, amended. For every input with bit 2 of control byte 0 set, the TRAINER segment
  \<open>[0x7000, 0x7200)\<close> is created and zero-filled and nothing is copied into it: after the
  load, however it ends, all its 512 bytes are 0. The trainer's only effect on the copies
  is the 512 added to the bank offsets.
\<close>

theorem trainer_segment_zero:
  assumes "read_header li = Inr nheader"
    and "uint (rom_control_byte_0 nheader) AND 0x04 \<noteq> 0"
  shows "has_segment ''TRAINER'' 0x7000 0x7200 (fst (load_file li neflags ROM_FORMAT_NAME db))
       \<and> zero_filled 0x7000 0x7200 (fst (load_file li neflags ROM_FORMAT_NAME db))
       \<and> prg_rom_bank_offset nheader 1 = 16 + 512"
  using assms
  by (simp add: load_file_segs segs_build_segments has_segment_def zero_filled_iff
        load_file_mem mem_first_case_copies mem_build_segments prg_rom_bank_offset_def
        region_consts)

theorem trainer_segment_zero_witness:
  "has_segment ''TRAINER'' 0x7000 0x7200
     (fst (load_file (one_bank_image 0x04 0) 0 ROM_FORMAT_NAME empty_database))
   \<and> zero_filled 0x7000 0x7200
     (fst (load_file (one_bank_image 0x04 0) 0 ROM_FORMAT_NAME empty_database))"
  using trainer_segment_zero [OF read_header_one_bank_image, of "0x04" 0 0 empty_database]
  by simp

text \<open>
  C5, as stated, fails: the image below has a header with two program pages and is cut
  to 16 + 8192 bytes, so the first copy already asks for bytes beyond its end; the load
  returns 1 and the loader has emitted no warning.
\<close>

theorem truncated_load_reports_nothing:
  "int (length truncated_image) < 16 + 16384
   \<and> snd (load_file truncated_image 0 ROM_FORMAT_NAME empty_database) = Inr 1
   \<and> warnings (fst (load_file truncated_image 0 ROM_FORMAT_NAME empty_database)) = []"
  by (simp add: load_file_result [OF read_header_truncated_image]
        load_file_warnings [OF read_header_truncated_image] mapper_version_def
        length_truncated_image empty_database_def)

text \<open>
  C5, amended. For every load that reaches the first branch (mapper numbers 0 to 5) the
  loader makes no check of the source length: whatever the length, it emits no warning
  and returns 1, the status of each copy being discarded. The target range of a copy
  whose file range does not lie within the source stays zero-filled.
\<close>

theorem no_bounds_check:
  assumes "read_header li = Inr nheader"
    and "mapper_version nheader \<in> {0, 1, 2, 3, 4, 5}"
  shows "snd (load_file li neflags ROM_FORMAT_NAME db) = Inr 1
       \<and> warnings (fst (load_file li neflags ROM_FORMAT_NAME db)) = warnings db
       \<and> (\<not> readable li (first_offset nheader) PRG_PAGE_SIZE \<longrightarrow>
            zero_filled 0x8000 0xC000 (fst (load_file li neflags ROM_FORMAT_NAME db)))
       \<and> (\<not> readable li (second_offset nheader) PRG_PAGE_SIZE \<longrightarrow>
            zero_filled 0xC000 0x10000 (fst (load_file li neflags ROM_FORMAT_NAME db)))
       \<and> (\<not> readable li (third_offset nheader) CHR_PAGE_SIZE \<longrightarrow>
            zero_filled 0x0000 0x2000 (fst (load_file li neflags ROM_FORMAT_NAME db)))"
proof -
  have res: "snd (load_file li neflags ROM_FORMAT_NAME db) = Inr 1"
    using assms by (simp add: load_file_result)
  have warn: "warnings (fst (load_file li neflags ROM_FORMAT_NAME db)) = warnings db"
    using assms by (simp add: load_file_warnings)
  have m: "mem (fst (load_file li neflags ROM_FORMAT_NAME db)) a =
             mem (first_case_copies li nheader (build_segments nheader db)) a" for a
    using assms by (simp add: load_file_mem)
  have z1: "zero_filled 0x8000 0xC000 (fst (load_file li neflags ROM_FORMAT_NAME db))"
    if "\<not> readable li (first_offset nheader) PRG_PAGE_SIZE"
    using that
    by (simp add: zero_filled_iff m mem_first_case_copies mem_build_segments region_consts)
  have z2: "zero_filled 0xC000 0x10000 (fst (load_file li neflags ROM_FORMAT_NAME db))"
    if "\<not> readable li (second_offset nheader) PRG_PAGE_SIZE"
    using that
    by (simp add: zero_filled_iff m mem_first_case_copies mem_build_segments region_consts)
  have z3: "zero_filled 0x0000 0x2000 (fst (load_file li neflags ROM_FORMAT_NAME db))"
    if "\<not> readable li (third_offset nheader) CHR_PAGE_SIZE"
    using that
    by (simp add: zero_filled_iff m mem_first_case_copies mem_build_segments region_consts)
  show ?thesis using res warn z1 z2 z3 by blast
qed

theorem no_bounds_check_witness:
  "snd (load_file truncated_image 0 ROM_FORMAT_NAME empty_database) = Inr 1
   \<and> warnings (fst (load_file truncated_image 0 ROM_FORMAT_NAME empty_database)) = []
   \<and> zero_filled 0x8000 0xC000 (fst (load_file truncated_image 0 ROM_FORMAT_NAME empty_database))
   \<and> zero_filled 0xC000 0x10000 (fst (load_file truncated_image 0 ROM_FORMAT_NAME empty_database))
   \<and> zero_filled 0x0000 0x2000 (fst (load_file truncated_image 0 ROM_FORMAT_NAME empty_database))"
  using no_bounds_check [OF read_header_truncated_image, of 0 empty_database]
  by (simp add: mapper_version_def readable_def length_truncated_image
        first_offset_def second_offset_def third_offset_def region_consts empty_database_def)

text \<open>
  C6. The mapper number 66 (GNROM) is named in the condition of the first branch, yet an
  image with this number never reaches the copies: the image below has control bytes
  \<open>0x20\<close> and \<open>0x40\<close>, its load raises \<open>NameError\<close>, and the byte at \<open>0x8000\<close> is 0 while
  the first byte of its program bank is \<open>0x11\<close>.
\<close>

theorem gnrom_image_not_loaded:
  "mapper_version \<lparr>magic = ROM_SIGNATURE, nb_prg_page_16k = 1, nb_chr_page_8k = 1,
       rom_control_byte_0 = 0x20, rom_control_byte_1 = 0x40, nb_prg_page_8k = 0,
       reserved = [0, 0, 0, 0, 0, 0, 0]\<rparr> = 66
   \<and> read_header (one_bank_image 0x20 0x40) =
       Inr \<lparr>magic = ROM_SIGNATURE, nb_prg_page_16k = 1, nb_chr_page_8k = 1,
            rom_control_byte_0 = 0x20, rom_control_byte_1 = 0x40, nb_prg_page_8k = 0,
            reserved = [0, 0, 0, 0, 0, 0, 0]\<rparr>
   \<and> snd (load_file (one_bank_image 0x20 0x40) 0 ROM_FORMAT_NAME empty_database)
       = Inl (NameError ''MAPPER_CAMERIC'')
   \<and> one_bank_image 0x20 0x40 ! 16 = 0x11
   \<and> mem (fst (load_file (one_bank_image 0x20 0x40) 0 ROM_FORMAT_NAME empty_database)) 0x8000
       = Some 0"
  by (simp add: load_file_result [OF read_header_one_bank_image]
        load_file_mem [OF read_header_one_bank_image] mapper_version_def
        mem_build_segments nth_16_one_bank_image read_header_one_bank_image)

text \<open>
  C7. For every header and every bank number \<open>b\<close>, the offset \<open>load_prg_rom_bank\<close>
  computes is 16, plus 512 when bit 2 of control byte 0 says a trainer is present, plus
  \<open>(b - 1) * 16384\<close>; the offset \<open>load_chr_rom_bank\<close> computes is 16, plus the same
  512, plus 16384 times the number of program pages, plus \<open>(b - 1) * 8192\<close>. The
  instances below are the ones of the specification: without a trainer and with two
  program pages, banks 1 and 2 are at 16 and 16400; with a trainer, at 528 and 16912.
\<close>

theorem bank_offsets:
  "prg_rom_bank_offset nheader b =
     16 + (if uint (rom_control_byte_0 nheader) AND 0x04 \<noteq> 0 then 512 else 0)
        + (b - 1) * 16384
   \<and> chr_rom_bank_offset nheader b =
     16 + (if uint (rom_control_byte_0 nheader) AND 0x04 \<noteq> 0 then 512 else 0)
        + uint (nb_prg_page_16k nheader) * 16384 + (b - 1) * 8192"
  by (simp add: prg_rom_bank_offset_def chr_rom_bank_offset_def Let_def region_consts)

theorem bank_offsets_witness:
  "prg_rom_bank_offset \<lparr>magic = ROM_SIGNATURE, nb_prg_page_16k = 2, nb_chr_page_8k = 1,
       rom_control_byte_0 = 0, rom_control_byte_1 = 0, nb_prg_page_8k = 0,
       reserved = replicate 7 0\<rparr> 1 = 16
   \<and> prg_rom_bank_offset \<lparr>magic = ROM_SIGNATURE, nb_prg_page_16k = 2, nb_chr_page_8k = 1,
       rom_control_byte_0 = 0, rom_control_byte_1 = 0, nb_prg_page_8k = 0,
       reserved = replicate 7 0\<rparr> 2 = 16400
   \<and> prg_rom_bank_offset \<lparr>magic = ROM_SIGNATURE, nb_prg_page_16k = 2, nb_chr_page_8k = 1,
       rom_control_byte_0 = 4, rom_control_byte_1 = 0, nb_prg_page_8k = 0,
       reserved = replicate 7 0\<rparr> 1 = 528
   \<and> prg_rom_bank_offset \<lparr>magic = ROM_SIGNATURE, nb_prg_page_16k = 2, nb_chr_page_8k = 1,
       rom_control_byte_0 = 4, rom_control_byte_1 = 0, nb_prg_page_8k = 0,
       reserved = replicate 7 0\<rparr> 2 = 16912
   \<and> chr_rom_bank_offset \<lparr>magic = ROM_SIGNATURE, nb_prg_page_16k = 2, nb_chr_page_8k = 1,
       rom_control_byte_0 = 0, rom_control_byte_1 = 0, nb_prg_page_8k = 0,
       reserved = replicate 7 0\<rparr> 1 = 32784"
  using bank_offsets [of "\<lparr>magic = ROM_SIGNATURE, nb_prg_page_16k = 2, nb_chr_page_8k = 1,
       rom_control_byte_0 = 0, rom_control_byte_1 = 0, nb_prg_page_8k = 0,
       reserved = replicate 7 0\<rparr>" 1]
    bank_offsets [of "\<lparr>magic = ROM_SIGNATURE, nb_prg_page_16k = 2, nb_chr_page_8k = 1,
       rom_control_byte_0 = 0, rom_control_byte_1 = 0, nb_prg_page_8k = 0,
       reserved = replicate 7 0\<rparr>" 2]
    bank_offsets [of "\<lparr>magic = ROM_SIGNATURE, nb_prg_page_16k = 2, nb_chr_page_8k = 1,
       rom_control_byte_0 = 4, rom_control_byte_1 = 0, nb_prg_page_8k = 0,
       reserved = replicate 7 0\<rparr>" 1]
    bank_offsets [of "\<lparr>magic = ROM_SIGNATURE, nb_prg_page_16k = 2, nb_chr_page_8k = 1,
       rom_control_byte_0 = 4, rom_control_byte_1 = 0, nb_prg_page_8k = 0,
       reserved = replicate 7 0\<rparr>" 2]
  by simp

text \<open>
  C8. For every header that decodes, a load into an empty database leaves a segment
  SRAM \<open>[0x6000, 0x8000)\<close> exactly when bit 1 of control byte 0 is set, and a segment
  TRAINER \<open>[0x7000, 0x7200)\<close> exactly when bit 2 is set; when the bit is clear there is
  no segment of that name at all.
\<close>

theorem conditional_segments:
  assumes "read_header li = Inr nheader" and "segs db = []"
  shows "(has_segment ''SRAM'' 0x6000 0x8000 (fst (load_file li neflags ROM_FORMAT_NAME db))
            \<longleftrightarrow> uint (rom_control_byte_0 nheader) AND 0x02 \<noteq> 0)
       \<and> (has_segment_named ''SRAM'' (fst (load_file li neflags ROM_FORMAT_NAME db))
            \<longleftrightarrow> uint (rom_control_byte_0 nheader) AND 0x02 \<noteq> 0)
       \<and> (has_segment ''TRAINER'' 0x7000 0x7200 (fst (load_file li neflags ROM_FORMAT_NAME db))
            \<longleftrightarrow> uint (rom_control_byte_0 nheader) AND 0x04 \<noteq> 0)
       \<and> (has_segment_named ''TRAINER'' (fst (load_file li neflags ROM_FORMAT_NAME db))
            \<longleftrightarrow> uint (rom_control_byte_0 nheader) AND 0x04 \<noteq> 0)"
  using assms
  by (simp add: load_file_segs segs_build_segments has_segment_def has_segment_named_def)

theorem conditional_segments_witness:
  "has_segment ''SRAM'' 0x6000 0x8000
     (fst (load_file (one_bank_image 0x02 0) 0 ROM_FORMAT_NAME empty_database))
   \<and> \<not> has_segment_named ''TRAINER''
     (fst (load_file (one_bank_image 0x02 0) 0 ROM_FORMAT_NAME empty_database))
   \<and> has_segment ''TRAINER'' 0x7000 0x7200
     (fst (load_file (one_bank_image 0x04 0) 0 ROM_FORMAT_NAME empty_database))
   \<and> \<not> has_segment_named ''SRAM''
     (fst (load_file (one_bank_image 0x04 0) 0 ROM_FORMAT_NAME empty_database))"
  using conditional_segments [OF read_header_one_bank_image, of empty_database "0x02" 0 0]
    conditional_segments [OF read_header_one_bank_image, of empty_database "0x04" 0 0]
  by (simp add: empty_database_def)

text \<open>
  C9. An input is refused, by \<open>accept_file\<close> returning 0 or by the header read of
  \<open>load_file\<close> raising, exactly when it has fewer than 16 bytes or its first four bytes
  are not the signature. \<open>accept_file\<close>, asked for the first format, accepts exactly the
  inputs whose first four bytes are the signature; the header read fails exactly on the
  inputs shorter than 16 bytes, and the load then ends before any segment is created.
\<close>

theorem header_decoder_rejects:
  "((accept_file li 0 = None \<or> read_header li = Inl ValueError)
      \<longleftrightarrow> (length li < 16 \<or> take 4 li \<noteq> ROM_SIGNATURE))
   \<and> (accept_file li 0 = Some ROM_FORMAT_NAME \<longleftrightarrow> take 4 li = ROM_SIGNATURE)
   \<and> (read_header li = Inl ValueError \<longleftrightarrow> length li < 16)
   \<and> (length li < 16 \<longrightarrow>
        load_file li neflags ROM_FORMAT_NAME db
          = (set_processor_type ''M6502'' db, Inl ValueError))"
  by (auto simp: accept_file_def li_read_def ROM_SIGNATURE_OFFSET_def ROM_SIGNATURE_LENGTH_def
        read_header_eq load_file_def Let_def)

theorem header_decoder_rejects_witness:
  "accept_file (one_bank_image 0 0) 0 = Some ROM_FORMAT_NAME
   \<and> read_header (one_bank_image 0 0) \<noteq> Inl ValueError
   \<and> accept_file [0x4E, 0x45, 0x53, 0x1A] 0 = Some ROM_FORMAT_NAME
   \<and> load_file [0x4E, 0x45, 0x53, 0x1A] 0 ROM_FORMAT_NAME empty_database
       = (set_processor_type ''M6502'' empty_database, Inl ValueError)
   \<and> accept_file [0x7F, 0x45, 0x4C, 0x46, 2, 1, 1, 0, 0, 0, 0, 0, 0, 0, 0, 0] 0 = None"
  using header_decoder_rejects [of "one_bank_image 0 0" 0 empty_database]
    header_decoder_rejects [of "[0x4E, 0x45, 0x53, 0x1A]" 0 empty_database]
    header_decoder_rejects
      [of "[0x7F, 0x45, 0x4C, 0x46, 2, 1, 1, 0, 0, 0, 0, 0, 0, 0, 0, 0]" 0 empty_database]
  by (auto simp: ROM_SIGNATURE_def one_bank_image_def header_bytes_def)

text \<open>
  C10. The three offsets the first branch of \<open>load_file\<close> computes in line are those of
  the bank functions: the first is \<open>load_prg_rom_bank\<close>'s for bank 1, the second its
  offset for the bank numbered by the program page count, the third
  \<open>load_chr_rom_bank\<close>'s for bank 1; and the branch as a whole does what the three calls
  of the bank functions at the branch's target addresses do.
\<close>

theorem inline_offsets_agree:
  "first_offset nheader = prg_rom_bank_offset nheader 1
   \<and> second_offset nheader = prg_rom_bank_offset nheader (uint (nb_prg_page_16k nheader))
   \<and> third_offset nheader = chr_rom_bank_offset nheader 1
   \<and> first_case_copies li nheader db =
       load_chr_rom_bank li nheader 1 RAM_START
         (load_prg_rom_bank li nheader (uint (nb_prg_page_16k nheader)) (ROM_START + PRG_PAGE_SIZE)
           (load_prg_rom_bank li nheader 1 ROM_START db))"
  by (simp add: first_offset_def second_offset_def third_offset_def prg_rom_bank_offset_def
        chr_rom_bank_offset_def first_case_copies_def load_prg_rom_bank_def
        load_chr_rom_bank_def Let_def)

end
